theory Spec2Isabelle
  imports Complex_Main
begin

section \<open>Position tracker (simulator/nmc\_sim43.py, PointThread.run)\<close>

text \<open>
  Python floats are modelled as reals.  \<open>self.point\<close> is a dictionary with the two
  fixed keys "AZ" and "EL", each holding the entries "predicted" and "actual".
\<close>

datatype point_key = AZ | EL

record point_axis =
  predicted :: real
  actual :: real

type_synonym point = "point_key \<Rightarrow> point_axis"

text \<open>The nested helper \<open>get_direction\<close> of \<open>PointThread.run\<close>.\<close>

definition get_direction :: "real \<Rightarrow> real" where
  "get_direction diff = (if diff < 0 then - 1 else 1)"

text \<open>
  The body of \<open>for axis in ["AZ","EL"]\<close>: the comparison and the increment both use
  \<open>self.slew_rate\<close>.
\<close>

definition slew_axis :: "real \<Rightarrow> point_axis \<Rightarrow> point_axis" where
  "slew_axis slew_rate ax =
     (let diff = predicted ax - actual ax in
      if \<bar>diff\<bar> > slew_rate
      then ax\<lparr>actual := actual ax + get_direction diff * slew_rate\<rparr>
      else ax\<lparr>actual := predicted ax\<rparr>)"

text \<open>
  One pass of the \<open>while\<close> loop of \<open>PointThread.run\<close>, between two sleeps: the
  commanded position (from the ephemeris, a parameter here) is stored as predicted,
  \<open>slew_amount = self.slew_rate * self.update_rate\<close> is computed, and both axes are
  moved.  The source never reads \<open>slew_amount\<close> again.
\<close>

definition point_tick :: "real \<Rightarrow> real \<Rightarrow> real \<times> real \<Rightarrow> point \<Rightarrow> point" where
  "point_tick slew_rate update_rate commanded current_point =
     (let (commanded_az, commanded_el) = commanded;
          p1 = current_point(AZ := (current_point AZ)\<lparr>predicted := commanded_az\<rparr>);
          p2 = p1(EL := (p1 EL)\<lparr>predicted := commanded_el\<rparr>);
          slew_amount = slew_rate * update_rate
      in fold (\<lambda>axis p. p(axis := slew_axis slew_rate (p axis))) [AZ, EL] p2)"

text \<open>The state of \<open>SimulatedAntenna.__init__\<close> for antenna 43 of the asynchronous variant.\<close>

definition point_init :: point where
  "point_init = (\<lambda>k. case k of AZ \<Rightarrow> \<lparr>predicted = 17, actual = 17\<rparr>
                              | EL \<Rightarrow> \<lparr>predicted = 88, actual = 88\<rparr>)"

section \<open>Python values and exceptions\<close>

text \<open>
  Text is modelled as ASCII \<open>string\<close>s.  Every \<open>raise\<close> of the source and every
  exception of a built-in operation is a value \<open>Inl e\<close> of a sum type; \<open>seq\<close> passes
  an exception on, as a statement sequence does.
\<close>

datatype py_error =
  TypeError | AttributeError | KeyError | ValueError | IndexError | NotImplementedError
  | UnicodeDecodeError

definition seq :: "py_error + 'a \<Rightarrow> ('a \<Rightarrow> py_error + 'b) \<Rightarrow> py_error + 'b" where
  "seq m f = (case m of Inl e \<Rightarrow> Inl e | Inr x \<Rightarrow> f x)"

text \<open>
  Python 3 keeps \<open>str\<close> and \<open>bytes\<close> apart: a \<open>bytes\<close> object never equals a
  \<open>str\<close> object, a socket sends and receives \<open>bytes\<close> only, and the methods of one
  type reject arguments of the other.  Where the type matters a piece of text carries it.
\<close>

datatype pytext = Str string | Bytes string

text \<open>The values found in the dictionaries returned by the client's \<open>get\<close>.\<close>

datatype pyval = PNone | PStr string | PInt int

text \<open>
  A dictionary with string keys, in insertion order; a store to an existing key
  overwrites the value in place (\<open>d[k] = v\<close>), a lookup of a missing key raises KeyError.
\<close>

type_synonym 'v dict = "(string \<times> 'v) list"

fun setitem :: "string \<Rightarrow> 'v \<Rightarrow> 'v dict \<Rightarrow> 'v dict" where
  "setitem k v [] = [(k, v)]"
| "setitem k v ((k', v') # d) = (if k = k' then (k, v) # d else (k', v') # setitem k v d)"

definition dict_of :: "(string \<times> 'v) list \<Rightarrow> 'v dict" where
  "dict_of kvs = fold (\<lambda>(k, v) d. setitem k v d) kvs []"

definition getitem :: "'v dict \<Rightarrow> string \<Rightarrow> py_error + 'v" where
  "getitem d k = (case map_of d k of None \<Rightarrow> Inl KeyError | Some v \<Rightarrow> Inr v)"

text \<open>
  \<open>float(x)\<close>: the parser of the text form of a float belongs to the Python runtime
  and is a parameter \<open>pyfloat\<close> (None where \<open>float\<close> raises ValueError).
\<close>

definition float_of :: "(string \<Rightarrow> real option) \<Rightarrow> pyval \<Rightarrow> py_error + real" where
  "float_of pyfloat x =
     (case x of
        PNone \<Rightarrow> Inl TypeError
      | PInt i \<Rightarrow> Inr (of_int i)
      | PStr s \<Rightarrow> (case pyfloat s of None \<Rightarrow> Inl ValueError | Some r \<Rightarrow> Inr r))"

subsection \<open>String operations\<close>

definition newline :: char where
  "newline = CHR 0x0A"

text \<open>\<open>sep.join(xs)\<close>.\<close>

fun join :: "string \<Rightarrow> string list \<Rightarrow> string" where
  "join sep [] = []"
| "join sep [x] = x"
| "join sep (x # y # ys) = x @ sep @ join sep (y # ys)"

text \<open>\<open>s.split(c)\<close> for a separator of one character: one more piece than separators.\<close>

fun split_char :: "char \<Rightarrow> string \<Rightarrow> string list" where
  "split_char c [] = [[]]"
| "split_char c (x # xs) =
     (if x = c then [] # split_char c xs
      else (case split_char c xs of p # ps \<Rightarrow> (x # p) # ps | [] \<Rightarrow> [[x]]))"

text \<open>
  \<open>s.split(", ")\<close>, the separator of \<open>get_params\<close> and \<open>get_commands\<close>: a comma
  followed by a space.
\<close>

fun split_comma_space :: "string \<Rightarrow> string list" where
  "split_comma_space [] = [[]]"
| "split_comma_space [x] = [[x]]"
| "split_comma_space (x # y # xs) =
     (if x = CHR '','' \<and> y = CHR '' '' then [] # split_comma_space xs
      else (case split_comma_space (y # xs) of p # ps \<Rightarrow> (x # p) # ps | [] \<Rightarrow> [[x]]))"

text \<open>
  \<open>s.strip()\<close>.  For a \<open>str\<close> the ASCII characters with \<open>isspace()\<close> true are
  tab, line feed, vertical tab, form feed, carriage return, the separators 0x1C to 0x1F
  and the space; for \<open>bytes\<close> the separators 0x1C to 0x1F are not stripped.
\<close>

definition str_space :: "char \<Rightarrow> bool" where
  "str_space c = (let n = (of_char c :: nat) in (9 \<le> n \<and> n \<le> 13) \<or> (28 \<le> n \<and> n \<le> 32))"

definition bytes_space :: "char \<Rightarrow> bool" where
  "bytes_space c = (let n = (of_char c :: nat) in (9 \<le> n \<and> n \<le> 13) \<or> n = 32)"

definition strip_with :: "(char \<Rightarrow> bool) \<Rightarrow> string \<Rightarrow> string" where
  "strip_with sp s = rev (dropWhile sp (rev (dropWhile sp s)))"

definition strip :: "string \<Rightarrow> string" where
  "strip = strip_with str_space"

text \<open>\<open>s.lower()\<close> and \<open>s.upper()\<close> on ASCII text.\<close>

definition lower_char :: "char \<Rightarrow> char" where
  "lower_char c = (let n = (of_char c :: nat) in if 65 \<le> n \<and> n \<le> 90 then char_of (n + 32) else c)"

definition upper_char :: "char \<Rightarrow> char" where
  "upper_char c = (let n = (of_char c :: nat) in if 97 \<le> n \<and> n \<le> 122 then char_of (n - 32) else c)"

definition lower :: "string \<Rightarrow> string" where
  "lower = map lower_char"

definition upper :: "string \<Rightarrow> string" where
  "upper = map upper_char"

text \<open>\<open>s in t\<close> on strings: \<open>s\<close> occurs in \<open>t\<close> as a contiguous piece.\<close>

fun starts_with :: "string \<Rightarrow> string \<Rightarrow> bool" where
  "starts_with t [] = True"
| "starts_with [] (x # xs) = False"
| "starts_with (y # ys) (x # xs) = (x = y \<and> starts_with ys xs)"

fun str_in :: "string \<Rightarrow> string \<Rightarrow> bool" where
  "str_in s [] = (s = [])"
| "str_in s (y # ys) = (starts_with (y # ys) s \<or> str_in s ys)"

section \<open>The protocol client (nmc\_server.py, class NMCServer)\<close>

subsection \<open>The socket and the stand-in antenna\<close>

text \<open>
  The socket is outside the repository.  It is modelled by the chunks of bytes that the
  peer delivers, in order, and by the trace of the calls made on it.  \<open>recv(n)\<close> returns
  at most \<open>n\<close> bytes of the first pending chunk and leaves the rest pending; with
  nothing pending the peer has closed and \<open>recv\<close> returns the empty \<open>bytes\<close>.
  \<open>sendall\<close> and \<open>send\<close> take \<open>bytes\<close>; called with a \<open>str\<close> they raise
  TypeError and send nothing, which is written out where a caller passes a \<open>str\<close>.
\<close>

datatype sock_event = Sent string | Recv nat string

record socket =
  incoming :: "string list"
  events :: "sock_event list"

definition sendall :: "socket \<Rightarrow> string \<Rightarrow> socket" where
  "sendall s text = s\<lparr>events := events s @ [Sent text]\<rparr>"

definition recv :: "socket \<Rightarrow> nat \<Rightarrow> string \<times> socket" where
  "recv s n =
     (case incoming s of
        [] \<Rightarrow> ([], s\<lparr>events := events s @ [Recv n []]\<rparr>)
      | chunk # rest \<Rightarrow>
          (take n chunk,
           s\<lparr>incoming := (if drop n chunk = [] then rest else drop n chunk # rest),
             events := events s @ [Recv n (take n chunk)]\<rparr>))"

text \<open>
  \<open>FakeAntenna\<close> of simulator/\_\_init\_\_.py: \<open>send\<close> stores the command in the
  attribute \<open>command\<close> (the field \<open>fa_command\<close>, None before the first \<open>send\<close>),
  \<open>recv\<close> returns "COMPLETED" whatever its argument is.
\<close>

record fake_antenna =
  fa_wsn :: nat
  fa_site :: string
  fa_dss :: nat
  fa_command :: "string option"

definition FakeAntenna :: fake_antenna where
  "FakeAntenna = \<lparr>fa_wsn = 0, fa_site = ''CDSCC'', fa_dss = 43, fa_command = None\<rparr>"

definition fa_send :: "fake_antenna \<Rightarrow> string \<Rightarrow> fake_antenna" where
  "fa_send sim command_str = sim\<lparr>fa_command := Some command_str\<rparr>"

definition fa_recv :: "fake_antenna \<Rightarrow> nat \<Rightarrow> string" where
  "fa_recv sim recval = ''COMPLETED''"

subsection \<open>The client state\<close>

text \<open>
  The attributes of \<open>NMCServer\<close> that the modelled methods read or write:
  \<open>_simulated\<close>, \<open>sock\<close>, \<open>simulator\<close>, \<open>server_initialized\<close>, and of the
  \<open>status\<close> dictionary the entry "point\_status" and the four tolerances under "angle".
\<close>

record status =
  point_status :: "string option"
  az_tol :: real
  el_tol :: real
  az_pred_tol :: real
  el_pred_tol :: real

record client =
  simulated :: bool
  sock :: "socket option"
  simulator :: "fake_antenna option"
  server_initialized :: bool
  status :: status

text \<open>The \<open>status\<close> dictionary as \<open>__init__\<close> builds it.\<close>

definition status_init :: status where
  "status_init = \<lparr>point_status = None, az_tol = 85/1000, el_tol = 85/1000,
                   az_pred_tol = 11/100, el_pred_tol = 11/100\<rparr>"

text \<open>
  The client after \<open>__init__\<close>: in simulated mode (\<open>simulate()\<close> has run), and
  connected to a peer through the socket \<open>s\<close> (\<open>connect_to_hardware\<close> has succeeded).
\<close>

definition client_simulated :: client where
  "client_simulated = \<lparr>simulated = True, sock = None, simulator = Some FakeAntenna,
                         server_initialized = False, status = status_init\<rparr>"


subsection \<open>command, get\_params, get, get\_offsets\<close>

text \<open>
  \<open>command(command_str, recv_val=128)\<close>.  \<open>command_str\<close> is a \<open>str\<close>: the
  docstring types it so, and \<open>get\<close>, \<open>get_params\<close> and every other caller in the
  class pass a \<open>str\<close> literal or the result of \<open>str.format\<close>.  On a connected
  client \<open>self.sock.sendall(command_str)\<close> therefore raises TypeError before anything
  is sent or received.  An attribute access on a missing socket or simulator raises
  AttributeError.  In simulated mode the literal \<open>'COMPLETED'\<close>, a \<open>str\<close>, is
  returned.
\<close>

definition command :: "client \<Rightarrow> string \<Rightarrow> nat \<Rightarrow> py_error + (pytext \<times> client)" where
  "command c command_str recv_val =
     (if \<not> simulated c then
        (case sock c of
           None \<Rightarrow> Inl AttributeError
         | Some s \<Rightarrow> Inl TypeError)
      else
        (case simulator c of
           None \<Rightarrow> Inl AttributeError
         | Some sim \<Rightarrow>
             (let sim1 = fa_send sim command_str;
                  resp = fa_recv sim1 recv_val
              in Inr (Str ''COMPLETED'', c\<lparr>simulator := Some sim1\<rparr>))))"

text \<open>
  \<open>get_params()\<close>: \<open>params.split(", ")\<close> with a \<open>str\<close> separator raises
  TypeError on \<open>bytes\<close>.
\<close>

definition get_params :: "client \<Rightarrow> py_error + (string list \<times> client)" where
  "get_params c =
     seq (command (c\<lparr>server_initialized := True\<rparr>) (''GET_PARAMS'' @ [newline]) 1024)
         (\<lambda>(params, c1).
            case params of
              Str p \<Rightarrow> Inr (split_comma_space p, c1)
            | Bytes b \<Rightarrow> Inl TypeError)"

text \<open>
  \<open>get(*params, **kwargs)\<close>; \<open>recv_val\<close> is \<open>kwargs.get("recv_val", 1024)\<close>.
  The command is built with \<open>str.format\<close>, so on a connected client \<open>command\<close>
  raises and the reply is never split; \<open>resp.split(",")\<close> with a \<open>str\<close> separator
  raises TypeError on \<open>bytes\<close>.
\<close>

definition get :: "client \<Rightarrow> string list \<Rightarrow> nat \<Rightarrow> py_error + (pyval dict \<times> client)" where
  "get c params recv_val =
     seq (if \<not> server_initialized c then seq (get_params c) (\<lambda>(ps, c0). Inr c0) else Inr c)
       (\<lambda>c0.
          let return_vals = dict_of (map (\<lambda>p. (p, PNone)) params) in
          if \<not> simulated c0 then
            (case sock c0 of
               Some s \<Rightarrow>
                 (let cmd = ''PARAM '' @ join '' '' params @ [newline] in
                  seq (command c0 cmd recv_val)
                    (\<lambda>(resp, c1).
                       case resp of
                         Bytes b \<Rightarrow> Inl TypeError
                       | Str r \<Rightarrow>
                           (let resp_list = split_char CHR '','' r in
                            if length resp_list = length params
                            then Inr (dict_of (zip params
                                        (map (\<lambda>x. PStr (strip x)) resp_list)), c1)
                            else Inr (return_vals, c1))))
             | None \<Rightarrow> Inr (return_vals, c0))
          else Inr ([(''AzimuthAngle'', PInt 60), (''ElevationAngle'', PInt 45)], c0))"

text \<open>
  \<open>get_offsets()\<close>: the set comprehension \<open>{1000*float(resp[key]) for key in resp}\<close>
  visits the keys in order and raises at the first value that \<open>float\<close> rejects.
\<close>

fun floats_of :: "(string \<Rightarrow> real option) \<Rightarrow> pyval list \<Rightarrow> py_error + real list" where
  "floats_of pyfloat [] = Inr []"
| "floats_of pyfloat (x # xs) =
     seq (float_of pyfloat x) (\<lambda>r. seq (floats_of pyfloat xs) (\<lambda>rs. Inr (r # rs)))"

definition get_offsets :: "(string \<Rightarrow> real option) \<Rightarrow> client \<Rightarrow> py_error + (real set \<times> client)" where
  "get_offsets pyfloat c =
     (let params = [''ElevationPositionOffset'', ''CrossElevationPositionOffset''] in
      seq (get c params 1024)
        (\<lambda>(resp, c1).
           seq (floats_of pyfloat (map snd resp))
             (\<lambda>rs. Inr (set (map (\<lambda>r. 1000 * r) rs), c1))))"

subsection \<open>onsource\<close>

text \<open>The nested helpers \<open>determine_antenna_status\<close> and \<open>xel\<close>.\<close>

definition determine_antenna_status :: "string \<Rightarrow> bool" where
  "determine_antenna_status status_mon_item_resp =
     (let st = lower status_mon_item_resp in
      if str_in ''operational'' st then True
      else if str_in ''marginal'' st then True
      else if str_in ''critical'' st then False
      else True)"

definition deg2rad :: "real \<Rightarrow> real" where
  "deg2rad x = x * pi / 180"

definition xel :: "real \<Rightarrow> real \<Rightarrow> real" where
  "xel el az = az * cos (deg2rad el)"

text \<open>
  The local variables of \<open>onsource\<close> that are computed from the two samples
  (source lines 649 to 665), in the order of the source.
\<close>

record onsource_locals =
  el_prev :: real
  el_cur :: real
  el_err_cur :: real
  el_pred_cur :: real
  az_prev :: real
  az_cur :: real
  az_err_cur :: real
  az_pred_cur :: real
  xel_prev :: real
  xel_cur :: real
  xel_err_cur :: real
  xel_pred_cur :: real

definition float_item :: "(string \<Rightarrow> real option) \<Rightarrow> pyval dict \<Rightarrow> string \<Rightarrow> py_error + real" where
  "float_item pyfloat d k = seq (getitem d k) (float_of pyfloat)"

definition onsource_values ::
  "(string \<Rightarrow> real option) \<Rightarrow> pyval dict \<Rightarrow> pyval dict \<Rightarrow> py_error + onsource_locals" where
  "onsource_values pyfloat params_before params_after =
     seq (float_item pyfloat params_before ''ElevationAngle'') (\<lambda>el_prev'.
     seq (float_item pyfloat params_after ''ElevationAngle'') (\<lambda>el_cur'.
     seq (float_item pyfloat params_after ''ElevationTrackingError'') (\<lambda>el_err_cur'.
     seq (float_item pyfloat params_after ''ElevationPredictedAngle'') (\<lambda>el_pred_cur'.
     seq (float_item pyfloat params_before ''AzimuthAngle'') (\<lambda>az_prev'.
     seq (float_item pyfloat params_after ''AzimuthAngle'') (\<lambda>az_cur'.
     seq (float_item pyfloat params_after ''AzimuthTrackingError'') (\<lambda>az_err_cur'.
     seq (float_item pyfloat params_after ''AzimuthPredictedAngle'') (\<lambda>az_pred_cur'.
       Inr \<lparr>el_prev = el_prev', el_cur = el_cur', el_err_cur = el_err_cur',
            el_pred_cur = el_pred_cur', az_prev = az_prev', az_cur = az_cur',
            az_err_cur = az_err_cur', az_pred_cur = az_pred_cur',
            xel_prev = xel el_prev' az_prev',
            xel_cur = xel el_cur' az_cur',
            xel_err_cur = xel el_err_cur' az_err_cur',
            xel_pred_cur = xel el_cur' az_pred_cur'\<rparr>))))))))"




section \<open>The simulated antenna (simulator/nmc\_sim43.py)\<close>

subsection \<open>Text, arguments and replies\<close>

text \<open>
  The simulator mixes \<open>bytes\<close> and \<open>str\<close>: requests arrive from the socket as
  \<open>bytes\<close> and the command tables are keyed by \<open>bytes\<close> literals, while the
  \<open>offsets\<close> dictionary is keyed by \<open>str\<close> literals.
\<close>

definition text_upper :: "pytext \<Rightarrow> pytext" where
  "text_upper t = (case t of Str s \<Rightarrow> Str (upper s) | Bytes s \<Rightarrow> Bytes (upper s))"

text \<open>An argument of \<open>float()\<close>: a piece of text or a float.\<close>

datatype arg = AText pytext | AFloat real

text \<open>A number of the antenna state, printed by \<open>str()\<close> or \<open>format\<close>.\<close>

datatype pynum = NInt int | NFloat real

text \<open>What a handler returns: a \<open>str\<close>, a \<open>bytes\<close> object or None.\<close>

datatype resp = RStr string | RBytes string | RNone

text \<open>
  What the Python runtime and the clock supply: the parser behind \<open>float()\<close> (None
  where it raises ValueError), the printer behind \<open>str()\<close>, and the readings of
  \<open>time.time()\<close>, \<open>utcnow().strftime(...)\<close> and \<open>time.mktime(utcnow().timetuple())\<close>.
\<close>

record env =
  env_float :: "string \<Rightarrow> real option"
  env_str :: "pynum \<Rightarrow> string"
  env_time :: real
  env_doy_time :: string
  env_mktime :: real

definition float_arg :: "env \<Rightarrow> arg \<Rightarrow> py_error + real" where
  "float_arg e x =
     (case x of
        AFloat r \<Rightarrow> Inr r
      | AText t \<Rightarrow>
          (case env_float e (case t of Str s \<Rightarrow> s | Bytes s \<Rightarrow> s) of
             None \<Rightarrow> Inl ValueError
           | Some r \<Rightarrow> Inr r))"

subsection \<open>The antenna state\<close>

text \<open>
  \<open>self.offsets\<close> has the two \<open>str\<close> keys "EL" and "XEL" from construction on; no
  key is ever added or removed.  A lookup with any other key, in particular with a
  \<open>bytes\<close> key, raises KeyError.
\<close>

datatype offset_key = OEL | OXEL

record axis_offsets =
  accumulated :: real
  offset :: real
  rate :: real

definition offset_key_of :: "pytext \<Rightarrow> offset_key option" where
  "offset_key_of t =
     (case t of
        Str s \<Rightarrow> (if s = ''EL'' then Some OEL else if s = ''XEL'' then Some OXEL else None)
      | Bytes s \<Rightarrow> None)"

text \<open>
  The two background threads are represented by their handles: the axis of the
  \<open>OffsetRateThread\<close>, the coordinates of the \<open>PointThread\<close>, and whether the stop
  event has been set.
\<close>

record rate_thread =
  rt_axis :: offset_key
  rt_stopped :: bool

record point_thread =
  pt_ra :: real
  pt_dec :: real
  pt_stopped :: bool

record antenna =
  onsource_counter :: int
  offsets :: "offset_key \<Rightarrow> axis_offsets"
  point :: point
  wrap :: pynum
  temperature :: pynum
  pressure :: pynum
  humidity :: pynum
  windspeed :: pynum
  winddirection :: pynum
  precipitation :: pynum
  WxHr :: pynum
  WxMin :: pynum
  WxSec :: pynum
  offset_rate_thread :: "rate_thread option"
  point_antenna_thread :: "point_thread option"

text \<open>
  \<open>SimulatedAntenna.__init__\<close>; the centre of the azimuth wrap comes from a table
  outside the repository and is a parameter.
\<close>

definition antenna_init :: "real \<Rightarrow> antenna" where
  "antenna_init wrap_center =
     \<lparr>onsource_counter = 0,
      offsets = (\<lambda>k. \<lparr>accumulated = 0, offset = 0, rate = 1\<rparr>),
      point = (\<lambda>k. case k of AZ \<Rightarrow> \<lparr>predicted = wrap_center, actual = wrap_center\<rparr>
                             | EL \<Rightarrow> \<lparr>predicted = 88, actual = 88\<rparr>),
      wrap = NInt 0, temperature = NInt 0, pressure = NInt 0, humidity = NInt 0,
      windspeed = NInt 0, winddirection = NInt 0, precipitation = NInt 0,
      WxHr = NInt 0, WxMin = NInt 0, WxSec = NInt 0,
      offset_rate_thread = None, point_antenna_thread = None\<rparr>"

text \<open>
  A method leaves the state it has reached when it raises, so the outcome of a call is
  the state together with either the exception or the value returned.
\<close>

type_synonym 'a outcome = "(py_error + 'a) \<times> antenna"

subsection \<open>Offsets and rates\<close>

definition get_offset :: "antenna \<Rightarrow> pytext \<Rightarrow> py_error + real" where
  "get_offset a axis =
     (case offset_key_of axis of None \<Rightarrow> Inl KeyError | Some k \<Rightarrow> Inr (offset (offsets a k)))"

definition get_accum_offset :: "antenna \<Rightarrow> pytext \<Rightarrow> py_error + real" where
  "get_accum_offset a axis =
     (case offset_key_of axis of None \<Rightarrow> Inl KeyError | Some k \<Rightarrow> Inr (accumulated (offsets a k)))"

definition get_offset_rate :: "antenna \<Rightarrow> pytext \<Rightarrow> py_error + real" where
  "get_offset_rate a axis =
     (case offset_key_of axis of None \<Rightarrow> Inl KeyError | Some k \<Rightarrow> Inr (rate (offsets a k)))"

text \<open>
  \<open>set_offset(axis, offset)\<close>: \<open>float(offset)\<close>, \<open>axis.upper()\<close>, then the arguments
  of the debug message are evaluated, among them \<open>self.get_offset(axis)\<close>; the test
  \<open>axis not in list(self.offsets.keys())\<close> comes after it.
\<close>

definition set_offset :: "env \<Rightarrow> antenna \<Rightarrow> pytext \<Rightarrow> arg \<Rightarrow> unit outcome" where
  "set_offset e a axis offset' =
     (case float_arg e offset' of
        Inl err \<Rightarrow> (Inl err, a)
      | Inr off \<Rightarrow>
          (let axis1 = text_upper axis in
           case get_offset a axis1 of
             Inl err \<Rightarrow> (Inl err, a)
           | Inr old \<Rightarrow>
               (case offset_key_of axis1 of
                  None \<Rightarrow> (Inr (), a)
                | Some k \<Rightarrow>
                    (Inr (), a\<lparr>offsets := (offsets a)
                                  (k := (offsets a k)\<lparr>offset := off, accumulated := off\<rparr>)\<rparr>))))"

text \<open>
  \<open>set_offset\<close> of simulator/async\_nmc\_sim43.py: the body of the coroutine, which
  runs when the coroutine is awaited.  It differs from the threaded one only in taking
  no lock.
\<close>

definition async_set_offset :: "env \<Rightarrow> antenna \<Rightarrow> pytext \<Rightarrow> arg \<Rightarrow> unit outcome" where
  "async_set_offset e a axis offset' =
     (case float_arg e offset' of
        Inl err \<Rightarrow> (Inl err, a)
      | Inr off \<Rightarrow>
          (let axis1 = text_upper axis in
           case get_offset a axis1 of
             Inl err \<Rightarrow> (Inl err, a)
           | Inr old \<Rightarrow>
               (case offset_key_of axis1 of
                  None \<Rightarrow> (Inr (), a)
                | Some k \<Rightarrow>
                    (Inr (), a\<lparr>offsets := (offsets a)
                                  (k := (offsets a k)\<lparr>offset := off, accumulated := off\<rparr>)\<rparr>))))"

definition set_accum_offset :: "env \<Rightarrow> antenna \<Rightarrow> pytext \<Rightarrow> arg \<Rightarrow> unit outcome" where
  "set_accum_offset e a axis offset' =
     (case float_arg e offset' of
        Inl err \<Rightarrow> (Inl err, a)
      | Inr off \<Rightarrow>
          (let axis1 = text_upper axis in
           case get_accum_offset a axis1 of
             Inl err \<Rightarrow> (Inl err, a)
           | Inr old \<Rightarrow>
               (case offset_key_of axis1 of
                  None \<Rightarrow> (Inr (), a)
                | Some k \<Rightarrow>
                    (Inr (), a\<lparr>offsets := (offsets a)
                                  (k := (offsets a k)\<lparr>accumulated := off\<rparr>)\<rparr>))))"

text \<open>
  \<open>set_rate(axis, rate)\<close>: the debug message reads \<open>self.offsets[axis]["rate"]\<close>
  first; then the rate is stored, a running rate thread is stopped and joined, and a new
  \<open>OffsetRateThread\<close> is started for the axis.
\<close>

definition set_rate :: "env \<Rightarrow> antenna \<Rightarrow> pytext \<Rightarrow> arg \<Rightarrow> unit outcome" where
  "set_rate e a axis rate' =
     (let axis1 = text_upper axis in
      case offset_key_of axis1 of
        None \<Rightarrow> (Inl KeyError, a)
      | Some k \<Rightarrow>
          (case float_arg e rate' of
             Inl err \<Rightarrow> (Inl err, a)
           | Inr r \<Rightarrow>
               (Inr (), a\<lparr>offsets := (offsets a)(k := (offsets a k)\<lparr>rate := r\<rparr>),
                          offset_rate_thread := Some \<lparr>rt_axis = k, rt_stopped = False\<rparr>\<rparr>)))"

subsection \<open>The handlers\<close>

type_synonym handler = "env \<Rightarrow> antenna \<Rightarrow> pytext list \<Rightarrow> resp outcome"

definition antenna_move :: handler where
  "antenna_move e a request_list = (Inr (RStr ''COMPLETED''), a)"

definition antenna_semn :: handler where
  "antenna_semn e a request_list = (Inr (RStr ''COMPLETED''), a)"

definition antenna_trk :: handler where
  "antenna_trk e a request_list = (Inr (RStr ''COMPLETED''), a)"

definition antenna_hi :: handler where
  "antenna_hi e a request_list = (Inr (RStr ''COMPLETED''), a)"

definition antenna_ro :: handler where
  "antenna_ro e a request_list =
     (case request_list of
        [c, sub, axis, rate'] \<Rightarrow>
          (case set_rate e a axis (AText rate') of
             (Inl err, a1) \<Rightarrow> (Inl err, a1)
           | (Inr u, a1) \<Rightarrow> (Inr (RStr ''COMPLETED''), a1))
      | _ \<Rightarrow> (Inr (RStr ''REJECTED''), a))"

definition antenna_po :: handler where
  "antenna_po e a request_list =
     (case request_list of
        [c, sub, axis, offset'] \<Rightarrow>
          (case set_offset e a axis (AText offset') of
             (Inl err, a1) \<Rightarrow> (Inl err, a1)
           | (Inr u, a1) \<Rightarrow> (Inr (RStr ''COMPLETED''), a1))
      | _ \<Rightarrow> (Inr (RStr ''REJECTED''), a))"

text \<open>
  \<open>antenna_clr\<close> compares the third token with the \<open>str\<close> literals "RO" and "PO".
  In the RO branch \<open>set_rate\<close> runs for "EL" and "XEL" in turn, then the rate thread
  is stopped and joined.
\<close>

definition antenna_clr :: handler where
  "antenna_clr e a request_list =
     (if length request_list > 2 then
        (if request_list ! 2 = Str ''RO'' then
           (case set_rate e a (Str ''EL'') (AFloat 0) of
              (Inl err, a1) \<Rightarrow> (Inl err, a1)
            | (Inr u, a1) \<Rightarrow>
                (case set_rate e a1 (Str ''XEL'') (AFloat 0) of
                   (Inl err, a2) \<Rightarrow> (Inl err, a2)
                 | (Inr u, a2) \<Rightarrow>
                     (Inr (RStr ''COMPLETED''),
                      a2\<lparr>offset_rate_thread :=
                           map_option (\<lambda>t. t\<lparr>rt_stopped := True\<rparr>) (offset_rate_thread a2)\<rparr>)))
         else if request_list ! 2 = Str ''PO'' then
           (Inr (RStr ''COMPLETED''),
            a\<lparr>offsets := (\<lambda>k. (offsets a k)\<lparr>offset := 0, accumulated := 0\<rparr>)\<rparr>)
         else (Inr (RStr ''REJECTED''), a))
      else (Inr (RStr ''REJECTED''), a))"

text \<open>
  \<open>point_antenna(ra, dec)\<close>: a running point thread is stopped and joined, then the
  constructor of \<open>PointThread\<close> converts the coordinates with \<open>float\<close> and the new
  thread is started.
\<close>

definition point_antenna :: "env \<Rightarrow> antenna \<Rightarrow> pytext \<Rightarrow> pytext \<Rightarrow> unit outcome" where
  "point_antenna e a ra dec =
     (let a1 = a\<lparr>point_antenna_thread :=
                   map_option (\<lambda>t. t\<lparr>pt_stopped := True\<rparr>) (point_antenna_thread a)\<rparr> in
      case float_arg e (AText ra) of
        Inl err \<Rightarrow> (Inl err, a1)
      | Inr r \<Rightarrow>
          (case float_arg e (AText dec) of
             Inl err \<Rightarrow> (Inl err, a1)
           | Inr d \<Rightarrow>
               (Inr (), a1\<lparr>point_antenna_thread :=
                             Some \<lparr>pt_ra = r, pt_dec = d, pt_stopped = False\<rparr>\<rparr>)))"

text \<open>\<open>antenna_radec\<close> sets \<open>resp = None\<close> after starting the thread and returns it.\<close>

definition antenna_radec :: handler where
  "antenna_radec e a request_list =
     (case request_list of
        [c, sub, ra, dec] \<Rightarrow>
          (case point_antenna e a ra dec of
             (Inl err, a1) \<Rightarrow> (Inl err, a1)
           | (Inr u, a1) \<Rightarrow> (Inr RNone, a1))
      | _ \<Rightarrow> (Inr (RStr ''REJECTED''), a))"

definition antenna_azel :: handler where
  "antenna_azel e a request_list = (Inl NotImplementedError, a)"

text \<open>
  A dispatch table keyed by \<open>bytes\<close> literals, in the order of the source.  The loop
  \<open>for cmd in table: if cmd == token: return cb(...)\<close> finds the first entry whose
  key equals the token; a \<open>str\<close> token equals none.
\<close>

fun find_command :: "(string \<times> 'h) list \<Rightarrow> pytext \<Rightarrow> 'h option" where
  "find_command [] t = None"
| "find_command ((cmd, cb) # table) t =
     (if Bytes cmd = t then Some cb else find_command table t)"

definition antenna_subcommands :: "(string \<times> handler) list" where
  "antenna_subcommands =
     [(''HI'', antenna_hi), (''RO'', antenna_ro), (''PO'', antenna_po), (''CLR'', antenna_clr),
      (''TRK'', antenna_trk), (''MOVE'', antenna_move), (''SEMN'', antenna_semn),
      (''RADEC'', antenna_radec), (''AZEL'', antenna_azel)]"

text \<open>
  \<open>antenna_cmd\<close>: the \<open>else\<close> that returns "REJECTED" belongs to
  \<open>if len(request_list) > 1\<close>.  When the loop over the sub-commands finds no match,
  the function ends without a \<open>return\<close> statement and yields None.
\<close>

definition antenna_cmd :: handler where
  "antenna_cmd e a request_list =
     (if length request_list > 1 then
        (let second = text_upper (request_list ! 1) in
         case find_command antenna_subcommands second of
           Some cb \<Rightarrow> cb e a request_list
         | None \<Rightarrow> (Inr RNone, a))
      else (Inr (RStr ''REJECTED''), a))"

text \<open>
  The table \<open>self.params\<close>: \<open>bytes\<close> keys and, for each, the text that \<open>str()\<close>
  gives for the value of its getter.
\<close>

definition params :: "(string \<times> (env \<Rightarrow> antenna \<Rightarrow> string)) list" where
  "params =
     [(''temperature'', \<lambda>e a. env_str e (temperature a)),
      (''pressure'', \<lambda>e a. env_str e (pressure a)),
      (''windspeed'', \<lambda>e a. env_str e (windspeed a)),
      (''winddirection'', \<lambda>e a. env_str e (winddirection a)),
      (''precipitation'', \<lambda>e a. env_str e (precipitation a)),
      (''total_precipitation'', \<lambda>e a. env_str e (precipitation a)),
      (''humidity'', \<lambda>e a. env_str e (humidity a)),
      (''WxHr'', \<lambda>e a. env_str e (WxHr a)),
      (''WxMin'', \<lambda>e a. env_str e (WxMin a)),
      (''WxSec'', \<lambda>e a. env_str e (WxSec a)),
      (''AzimuthPredictedAngle'', \<lambda>e a. env_str e (NFloat (predicted (point a AZ)))),
      (''AzimuthAngle'', \<lambda>e a. env_str e (NFloat (actual (point a AZ)))),
      (''ElevationPredictedAngle'', \<lambda>e a. env_str e (NFloat (predicted (point a EL)))),
      (''ElevationAngle'', \<lambda>e a. env_str e (NFloat (actual (point a EL)))),
      (''WRAP'', \<lambda>e a. env_str e (wrap a)),
      (''AzimuthTrackingError'', \<lambda>e a. env_str e (NInt 0)),
      (''ElevationTrackingError'', \<lambda>e a. env_str e (NInt 0)),
      (''Status'', \<lambda>e a. ''operational''),
      (''AxisAngleTime'', \<lambda>e a. env_str e (NInt 0)),
      (''ElevationManualOffset'', \<lambda>e a. env_str e (NFloat (accumulated (offsets a OEL)))),
      (''ElevationPositionOffset'', \<lambda>e a. env_str e (NFloat (offset (offsets a OEL)))),
      (''ElevationAccumulatedRateOffset'', \<lambda>e a. env_str e (NFloat (accumulated (offsets a OEL)))),
      (''CrossElevationManualOffset'', \<lambda>e a. env_str e (NFloat (accumulated (offsets a OXEL)))),
      (''CrossElevationPositionOffset'', \<lambda>e a. env_str e (NFloat (offset (offsets a OXEL)))),
      (''CrossElevationAccumulatedRateOffset'',
         \<lambda>e a. env_str e (NFloat (accumulated (offsets a OXEL)))),
      (''AzimuthAngleWrap'', \<lambda>e a. env_str e (wrap a)),
      (''ANGTIME'', \<lambda>e a. join '' '' [env_str e (NFloat (env_time e)),
                                        env_str e (NInt 18000000), env_str e (NInt 0)]),
      (''CurrentDoyTime'', \<lambda>e a. env_doy_time e)]"

text \<open>
  \<open>get(request_list)\<close>, the handler of PARAM (\<open>sim_get\<close> here, the client has a
  \<open>get\<close> too): the requested names that are keys of \<open>params\<close>, joined by ", ".
\<close>

definition sim_get :: handler where
  "sim_get e a request_list =
     (Inr (RStr (join '', ''
        (concat (map (\<lambda>p. case find_command params p of
                             Some getter \<Rightarrow> [getter e a]
                           | None \<Rightarrow> []) (tl request_list))))), a)"

definition get_weather :: handler where
  "get_weather e a request_list =
     (Inr (RStr (join '' '' [''COMPLETED'', env_str e (temperature a), env_str e (pressure a),
        env_str e (humidity a), env_str e (windspeed a), env_str e (winddirection a),
        env_str e (precipitation a),
        join '':'' [env_str e (WxHr a), env_str e (WxMin a), env_str e (WxSec a)]])), a)"

definition sim_get_offsets :: handler where
  "sim_get_offsets e a request_list =
     (Inr (RStr (join '' '' [''COMPLETED'', env_str e (NFloat (offset (offsets a OEL))),
        env_str e (NInt 0), env_str e (NFloat (offset (offsets a OXEL))), env_str e (NInt 0)])), a)"

definition get_azel :: handler where
  "get_azel e a request_list =
     (Inr (RStr (join '' '' [''COMPLETED'', env_str e (NFloat (actual (point a AZ))),
        env_str e (NFloat (actual (point a EL))), env_str e (wrap a),
        env_str e (NFloat (env_mktime e))])), a)"

definition get_hadec :: handler where
  "get_hadec e a request_list =
     (Inr (RStr (join '' '' [''COMPLETED'', env_str e (NInt 0), env_str e (NInt 0),
        env_str e (NInt 0), env_str e (NInt 0)])), a)"

definition terminate :: handler where
  "terminate e a request_list = (Inr (RStr ''COMPLETED''), a)"

definition sim_onsource :: handler where
  "sim_onsource e a request_list =
     (if onsource_counter a \<ge> 3
      then (Inr (RStr ''COMPLETED ONSOURCE''), a\<lparr>onsource_counter := 0\<rparr>)
      else (Inr (RStr ''COMPLETED SLEWING''), a\<lparr>onsource_counter := onsource_counter a + 1\<rparr>))"

definition wait_on_source :: handler where
  "wait_on_source e a request_list = (Inr (RStr ''COMPLETED''), a)"

text \<open>
  \<open>get_commands\<close> joins the \<open>bytes\<close> keys of \<open>self.commands\<close> with the \<open>str\<close>
  ", ", which raises TypeError; \<open>get_params\<close> joins the keys of \<open>self.params\<close> with
  the \<open>bytes\<close> b", " and returns \<open>bytes\<close>.
\<close>

definition get_commands :: handler where
  "get_commands e a request_list = (Inl TypeError, a)"

definition sim_get_params :: handler where
  "sim_get_params e a request_list = (Inr (RBytes (join '', '' (map fst params))), a)"

definition atten :: handler where
  "atten e a request_list = (Inr (RStr ''COMPLETED''), a)"

definition commands :: "(string \<times> handler) list" where
  "commands =
     [(''ANTENNA'', antenna_cmd), (''PARAM'', sim_get), (''GET_WEATHER'', get_weather),
      (''GET_OFFSETS'', sim_get_offsets), (''GET_AZEL'', get_azel), (''GET_HADEC'', get_hadec),
      (''TERMINATE'', terminate), (''ONSOURCE'', sim_onsource),
      (''WAITONSOURCE'', wait_on_source), (''GET_COMMANDS'', get_commands),
      (''GET_PARAMS'', sim_get_params), (''ATTEN'', atten)]"

subsection \<open>process\_request and the request handler\<close>

text \<open>
  \<open>[r.strip() for r in request_str.split(b" ")]\<close>: on a \<open>str\<close> request the split
  raises TypeError and the \<open>except\<close> branch sets the list to \<open>["ERROR"]\<close>.
\<close>

definition split_request :: "pytext \<Rightarrow> pytext list" where
  "split_request request_str =
     (case request_str of
        Bytes b \<Rightarrow> map (\<lambda>r. Bytes (strip_with bytes_space r)) (split_char CHR '' '' b)
      | Str s \<Rightarrow> [Str ''ERROR''])"

definition process_request :: "env \<Rightarrow> antenna \<Rightarrow> pytext \<Rightarrow> resp outcome" where
  "process_request e a request_str =
     (let split = split_request request_str in
      case split of
        [] \<Rightarrow> (Inl IndexError, a)
      | t # ts \<Rightarrow>
          (let first = text_upper t in
           case find_command commands first of
             Some cb \<Rightarrow> cb e a split
           | None \<Rightarrow> (Inr (RStr ''ERROR''), a)))"

text \<open>
  The inner loop of \<open>NMCRequestHandler.handle\<close>: read chunks of at most 8 bytes until
  one of them contains the break character.  It does not return when the peer closes
  before sending one.
\<close>

partial_function (option) recv_until_break ::
  "socket \<Rightarrow> string \<Rightarrow> string \<Rightarrow> (string \<times> socket) option" where
  "recv_until_break s data accum =
     (if newline \<in> set data then Some (accum, s)
      else (case recv s 8 of (d, s1) \<Rightarrow> recv_until_break s1 d (accum @ d)))"

text \<open>
  One pass of the outer loop of \<open>handle\<close>: the line read (None when the peer has
  closed and the loop is left), and the antenna and the socket afterwards.  A
  \<open>bytes\<close> reply is sent as it is, a \<open>str\<close> reply encoded; \<open>bytes(None, ...)\<close>
  raises TypeError, and every exception is caught and logged, so nothing is sent.
\<close>

definition handle_pass ::
  "env \<Rightarrow> antenna \<Rightarrow> socket \<Rightarrow> (string option \<times> antenna \<times> socket) option" where
  "handle_pass e a s =
     (case recv s 8 of
        (data, s1) \<Rightarrow>
          if data = [] then Some (None, a, s1)
          else
            (case recv_until_break s1 data data of
               None \<Rightarrow> None
             | Some (accum, s2) \<Rightarrow>
                 (case process_request e a (Bytes accum) of
                    (Inr (RBytes b), a1) \<Rightarrow> Some (Some accum, a1, sendall s2 b)
                  | (Inr (RStr t), a1) \<Rightarrow> Some (Some accum, a1, sendall s2 t)
                  | (Inr RNone, a1) \<Rightarrow> Some (Some accum, a1, s2)
                  | (Inl err, a1) \<Rightarrow> Some (Some accum, a1, s2))))"

text \<open>\<open>handle\<close>: passes until the peer closes.\<close>

partial_function (option) handle :: "env \<Rightarrow> antenna \<Rightarrow> socket \<Rightarrow> (antenna \<times> socket) option" where
  "handle e a s =
     (case handle_pass e a s of
        None \<Rightarrow> None
      | Some (None, a1, s1) \<Rightarrow> Some (a1, s1)
      | Some (Some line, a1, s1) \<Rightarrow> handle e a1 s1)"

text \<open>
  \<open>antenna_po\<close> of simulator/async\_nmc\_sim43.py.  Its tokens are \<open>str\<close>.  It
  calls the coroutine function \<open>set_offset\<close> without awaiting the result: the call
  creates a coroutine object that is dropped, and the body of \<open>set_offset\<close> never runs.
\<close>

definition async_antenna_po :: handler where
  "async_antenna_po e a request_list =
     (case request_list of
        [c, sub, axis, offset'] \<Rightarrow> (Inr (RStr ''COMPLETED''), a)
      | _ \<Rightarrow> (Inr (RStr ''REJECTED''), a))"

subsection \<open>The asynchronous request handler (simulator/async\_nmc\_sim43.py)\<close>

text \<open>
  \<open>bytes.decode("utf8")\<close>: the code points of a well-formed UTF-8 byte sequence, None
  where Python raises UnicodeDecodeError (a byte that starts no sequence, a sequence cut
  short, a wrong continuation byte, an overlong form, a surrogate, a value above
  U+10FFFF).  A \<open>str\<close> of the asynchronous handler is a list of code points.
\<close>

definition continuation :: "nat \<Rightarrow> bool" where
  "continuation b = (128 \<le> b \<and> b \<le> 191)"

definition second_of_three :: "nat \<Rightarrow> nat \<Rightarrow> bool" where
  "second_of_three b0 b1 =
     (if b0 = 224 then 160 \<le> b1 \<and> b1 \<le> 191
      else if b0 = 237 then 128 \<le> b1 \<and> b1 \<le> 159
      else continuation b1)"

definition second_of_four :: "nat \<Rightarrow> nat \<Rightarrow> bool" where
  "second_of_four b0 b1 =
     (if b0 = 240 then 144 \<le> b1 \<and> b1 \<le> 191
      else if b0 = 244 then 128 \<le> b1 \<and> b1 \<le> 143
      else continuation b1)"

fun utf8_code_points :: "nat list \<Rightarrow> nat list option" where
  "utf8_code_points [] = Some []"
| "utf8_code_points (b0 # bs) =
     (if b0 < 128 then map_option (Cons b0) (utf8_code_points bs)
      else if 194 \<le> b0 \<and> b0 \<le> 223 then
        (case bs of
           b1 # r \<Rightarrow>
             if continuation b1
             then map_option (Cons ((b0 - 192) * 64 + (b1 - 128))) (utf8_code_points r)
             else None
         | [] \<Rightarrow> None)
      else if 224 \<le> b0 \<and> b0 \<le> 239 then
        (case bs of
           b1 # b2 # r \<Rightarrow>
             if second_of_three b0 b1 \<and> continuation b2
             then map_option (Cons ((b0 - 224) * 4096 + (b1 - 128) * 64 + (b2 - 128)))
                    (utf8_code_points r)
             else None
         | _ \<Rightarrow> None)
      else if 240 \<le> b0 \<and> b0 \<le> 244 then
        (case bs of
           b1 # b2 # b3 # r \<Rightarrow>
             if second_of_four b0 b1 \<and> continuation b2 \<and> continuation b3
             then map_option (Cons ((b0 - 240) * 262144 + (b1 - 128) * 4096
                                     + (b2 - 128) * 64 + (b3 - 128)))
                    (utf8_code_points r)
             else None
         | _ \<Rightarrow> None)
      else None)"

definition decode_utf8 :: "string \<Rightarrow> nat list option" where
  "decode_utf8 b = utf8_code_points (map of_char b)"

text \<open>
  The inner loop of \<open>NMCServer.handle_client\<close>: every read of at most 8 bytes is
  decoded on its own, before it is appended; the break character is the code point 10.
\<close>

partial_function (option) async_read_until_break ::
  "socket \<Rightarrow> nat list \<Rightarrow> nat list \<Rightarrow> (py_error + nat list \<times> socket) option" where
  "async_read_until_break s data accum =
     (if 10 \<in> set data then Some (Inr (accum, s))
      else (case recv s 8 of
              (d, s1) \<Rightarrow>
                (case decode_utf8 d of
                   None \<Rightarrow> Some (Inl UnicodeDecodeError)
                 | Some u \<Rightarrow> async_read_until_break s1 u (accum @ u))))"

text \<open>
  One pass of the outer loop of \<open>handle_client\<close>.  The two \<open>decode\<close> calls stand
  outside the \<open>try\<close> block, so a UnicodeDecodeError ends the handler.  What the
  \<open>try\<close> block does with the line (\<open>dispatch_command\<close>, the encoding of its reply;
  an exception there is caught and nothing is written) does not bear on the framing and
  is the parameter \<open>dispatch\<close>: the bytes written, if any, and the antenna afterwards.
\<close>

definition async_handle_pass ::
  "(nat list \<Rightarrow> 'st \<Rightarrow> string option \<times> 'st) \<Rightarrow> 'st \<Rightarrow> socket
     \<Rightarrow> (py_error + nat list option \<times> 'st \<times> socket) option" where
  "async_handle_pass dispatch st s =
     (case recv s 8 of
        (d, s1) \<Rightarrow>
          (case decode_utf8 d of
             None \<Rightarrow> Some (Inl UnicodeDecodeError)
           | Some data \<Rightarrow>
               if data = [] then Some (Inr (None, st, s1))
               else
                 (case async_read_until_break s1 data data of
                    None \<Rightarrow> None
                  | Some (Inl err) \<Rightarrow> Some (Inl err)
                  | Some (Inr (accum, s2)) \<Rightarrow>
                      (case dispatch accum st of
                         (Some b, st1) \<Rightarrow> Some (Inr (Some accum, st1, sendall s2 b))
                       | (None, st1) \<Rightarrow> Some (Inr (Some accum, st1, s2))))))"

text \<open>
  Two observations used to state what a pass does: the payloads of the \<open>send\<close> calls
  recorded on a socket, and the payload that \<open>handle\<close> sends for an outcome of
  \<open>process_request\<close> (none for None and for an exception).
\<close>

definition sent :: "socket \<Rightarrow> string list" where
  "sent s = concat (map (\<lambda>ev. case ev of Sent t \<Rightarrow> [t] | Recv n d \<Rightarrow> []) (events s))"

definition reply_of :: "resp outcome \<Rightarrow> string list" where
  "reply_of out = (case fst out of Inr (RBytes b) \<Rightarrow> [b] | Inr (RStr t) \<Rightarrow> [t]
                    | Inr RNone \<Rightarrow> [] | Inl err \<Rightarrow> [])"

section \<open>Properties of the position tracker\<close>

lemma point_tick_axis:
  "point_tick sr ur (caz, cel) p k =
     slew_axis sr ((p k)\<lparr>predicted := (case k of AZ \<Rightarrow> caz | EL \<Rightarrow> cel)\<rparr>)"
  by (cases k) (simp_all add: point_tick_def)

lemma slew_axis_predicted: "predicted (slew_axis sr ax) = predicted ax"
  by (simp add: slew_axis_def Let_def)

lemma slew_axis_step_le:
  assumes "0 \<le> sr"
  shows "\<bar>actual (slew_axis sr ax) - actual ax\<bar> \<le> sr"
  using assms by (simp add: slew_axis_def Let_def get_direction_def)

lemma slew_axis_no_overshoot:
  assumes "0 \<le> sr"
  shows "(actual ax \<le> predicted ax \<longrightarrow>
            actual ax \<le> actual (slew_axis sr ax) \<and> actual (slew_axis sr ax) \<le> predicted ax)
       \<and> (predicted ax \<le> actual ax \<longrightarrow>
            predicted ax \<le> actual (slew_axis sr ax) \<and> actual (slew_axis sr ax) \<le> actual ax)"
  using assms by (auto simp add: slew_axis_def Let_def get_direction_def)

text \<open>
  What the tracker does guarantee, whatever the tick period: each axis moves by at most
  \<open>slew_rate\<close> (not \<open>slew_rate * update_rate\<close>) and stays between its old actual
  value and the new predicted value.
\<close>

lemma point_tick_step_le:
  assumes "0 \<le> sr"
  shows "\<bar>actual (point_tick sr ur c p k) - actual (p k)\<bar> \<le> sr"
proof -
  obtain caz cel where c: "c = (caz, cel)" by (cases c)
  let ?ax = "(p k)\<lparr>predicted := (case k of AZ \<Rightarrow> caz | EL \<Rightarrow> cel)\<rparr>"
  have "\<bar>actual (slew_axis sr ?ax) - actual ?ax\<bar> \<le> sr"
    using assms by (rule slew_axis_step_le)
  then show ?thesis by (simp add: c point_tick_axis)
qed

lemma point_tick_no_overshoot:
  assumes "0 \<le> sr" and "actual (p k) \<le> predicted (point_tick sr ur c p k)"
  shows "actual (p k) \<le> actual (point_tick sr ur c p k)
       \<and> actual (point_tick sr ur c p k) \<le> predicted (point_tick sr ur c p k)"
proof -
  obtain caz cel where c: "c = (caz, cel)" by (cases c)
  let ?ax = "(p k)\<lparr>predicted := (case k of AZ \<Rightarrow> caz | EL \<Rightarrow> cel)\<rparr>"
  from assms(2) have "actual ?ax \<le> predicted ?ax"
    by (simp add: c point_tick_axis slew_axis_predicted)
  with slew_axis_no_overshoot [OF assms(1), of ?ax] show ?thesis
    by (simp add: c point_tick_axis slew_axis_predicted)
qed

text \<open>
  Claim C2.  The claim bounds the change of each axis per tick by
  \<open>slew_rate * update_rate\<close> for every tick period.  With a slew rate of 0.23 deg/s,
  a tick period of 0.5 s, the antenna at its initial position (AZ 17, EL 88) and a
  commanded position of (100, 88), the AZ axis moves by 0.23, twice the bound 0.115:
  the step is \<open>slew_rate\<close>, the computed \<open>slew_amount\<close> is unused.
\<close>

theorem point_tick_exceeds_slew_amount:
  "actual (point_tick (23/100) (1/2) (100, 88) point_init AZ) - actual (point_init AZ) = 23/100
   \<and> \<not> \<bar>actual (point_tick (23/100) (1/2) (100, 88) point_init AZ) - actual (point_init AZ)\<bar>
         \<le> (23/100) * (1/2)"
  by (simp add: point_tick_def point_init_def slew_axis_def get_direction_def Let_def)

section \<open>Properties of the protocol client\<close>

lemma seq_Inr: "seq m f = Inr y \<longleftrightarrow> (\<exists>x. m = Inr x \<and> f x = Inr y)"
  by (cases m) (simp_all add: seq_def)

subsection \<open>A client that is not simulated\<close>

text \<open>
  On a client with an open socket every \<open>command\<close> raises TypeError, and with it
  every \<open>get\<close> and \<open>get_offsets\<close>: the request is a \<open>str\<close> and the socket takes
  \<open>bytes\<close>.  Without a socket the calls raise AttributeError, or \<open>get\<close> returns a
  mapping of None values.
\<close>

lemma command_not_simulated:
  assumes "\<not> simulated c"
  shows "command c text n = (case sock c of None \<Rightarrow> Inl AttributeError | Some s \<Rightarrow> Inl TypeError)"
  using assms by (simp add: command_def)

lemma get_connected_raises:
  assumes "\<not> simulated c" and "sock c = Some s"
  shows "get c names recv_val = Inl TypeError"
  using assms by (simp add: get_def get_params_def command_def seq_def Let_def)

lemma get_offsets_connected_raises:
  assumes "\<not> simulated c" and "sock c = Some s"
  shows "get_offsets pyfloat c = Inl TypeError"
  using assms by (simp add: get_offsets_def get_connected_raises seq_def)


subsection \<open>onsource\<close>

text \<open>
  The classification of the Status text by \<open>determine_antenna_status\<close>: "operational"
  and "marginal" count as operational, "critical" does not, anything else does; the
  case of the letters does not matter, and "operational" wins over "critical".
\<close>

lemma determine_antenna_status_examples:
  "determine_antenna_status ''operational''"
  "determine_antenna_status ''Marginal''"
  "\<not> determine_antenna_status ''CRITICAL''"
  "determine_antenna_status ''unknown''"
  "determine_antenna_status ''critical, was operational''"
  by code_simp+



text \<open>
  Claim C6 (as amended).  The cross-elevation formula \<open>az * cos (radians el)\<close> is applied
  to the (angle, angle) pairs of both samples and to the current (tracking error,
  tracking error) pair; the current predicted cross-elevation is computed from the
  predicted azimuth and the current actual elevation \<open>el_cur\<close>, not the predicted one.
\<close>

theorem onsource_values_fields:
  assumes "onsource_values pyfloat params_before params_after = Inr v"
  shows "float_item pyfloat params_before ''ElevationAngle'' = Inr (el_prev v)
       \<and> float_item pyfloat params_after ''ElevationAngle'' = Inr (el_cur v)
       \<and> float_item pyfloat params_after ''ElevationTrackingError'' = Inr (el_err_cur v)
       \<and> float_item pyfloat params_after ''ElevationPredictedAngle'' = Inr (el_pred_cur v)
       \<and> float_item pyfloat params_before ''AzimuthAngle'' = Inr (az_prev v)
       \<and> float_item pyfloat params_after ''AzimuthAngle'' = Inr (az_cur v)
       \<and> float_item pyfloat params_after ''AzimuthTrackingError'' = Inr (az_err_cur v)
       \<and> float_item pyfloat params_after ''AzimuthPredictedAngle'' = Inr (az_pred_cur v)
       \<and> xel_prev v = az_prev v * cos (deg2rad (el_prev v))
       \<and> xel_cur v = az_cur v * cos (deg2rad (el_cur v))
       \<and> xel_err_cur v = az_err_cur v * cos (deg2rad (el_err_cur v))
       \<and> xel_pred_cur v = az_pred_cur v * cos (deg2rad (el_cur v))"
  using assms
  by (auto simp add: onsource_values_def seq_Inr xel_def)

theorem onsource_values_fields_witness:
  "(case onsource_values (map_of [(''0'', 0), (''1'', 1), (''90'', 90)])
      [(''ElevationAngle'', PStr ''0''), (''AzimuthAngle'', PStr ''1'')]
      [(''ElevationAngle'', PStr ''0''), (''ElevationTrackingError'', PStr ''0''),
       (''ElevationPredictedAngle'', PStr ''90''), (''AzimuthAngle'', PStr ''1''),
       (''AzimuthTrackingError'', PStr ''0''), (''AzimuthPredictedAngle'', PStr ''1'')]
    of Inr v \<Rightarrow> xel_prev v = 1 \<and> xel_cur v = 1 \<and> xel_err_cur v = 0 \<and> xel_pred_cur v = 1
                \<and> el_cur v = 0 \<and> el_pred_cur v = 90 \<and> az_pred_cur v = 1
     | Inl e \<Rightarrow> False)"
proof -
  define pf :: "string \<Rightarrow> real option" where "pf = map_of [(''0'', 0), (''1'', 1), (''90'', 90)]"
  define before where "before = [(''ElevationAngle'', PStr ''0''), (''AzimuthAngle'', PStr ''1'')]"
  define after where "after = [(''ElevationAngle'', PStr ''0''), (''ElevationTrackingError'', PStr ''0''),
       (''ElevationPredictedAngle'', PStr ''90''), (''AzimuthAngle'', PStr ''1''),
       (''AzimuthTrackingError'', PStr ''0''), (''AzimuthPredictedAngle'', PStr ''1'')]"
  define v where "v = projr (onsource_values pf before after)"
  have h: "onsource_values pf before after = Inr v"
    unfolding v_def
    by (simp add: onsource_values_def float_item_def getitem_def float_of_def seq_def
          pf_def before_def after_def)
  have f: "float_item pf before ''ElevationAngle'' = Inr 0"
          "float_item pf after ''ElevationAngle'' = Inr 0"
          "float_item pf after ''ElevationTrackingError'' = Inr 0"
          "float_item pf after ''ElevationPredictedAngle'' = Inr 90"
          "float_item pf before ''AzimuthAngle'' = Inr 1"
          "float_item pf after ''AzimuthAngle'' = Inr 1"
          "float_item pf after ''AzimuthTrackingError'' = Inr 0"
          "float_item pf after ''AzimuthPredictedAngle'' = Inr 1"
    by (simp_all add: float_item_def getitem_def float_of_def seq_def pf_def before_def after_def)
  from onsource_values_fields [OF h] f
  have "xel_prev v = 1 \<and> xel_cur v = 1 \<and> xel_err_cur v = 0 \<and> xel_pred_cur v = 1
                \<and> el_cur v = 0 \<and> el_pred_cur v = 90 \<and> az_pred_cur v = 1"
    by (simp add: deg2rad_def)
  with h show ?thesis
    unfolding pf_def [symmetric] before_def [symmetric] after_def [symmetric] by simp
qed

text \<open>
  Counterexample to C6 as stated: with a current elevation of 0, a predicted elevation
  of 90 and a predicted azimuth of 1, the code's predicted cross-elevation is
  \<open>1 * cos 0 = 1\<close>, while the formula on the (predicted, predicted) pair gives
  \<open>1 * cos (pi / 2) = 0\<close>.
\<close>

theorem xel_pred_cur_uses_el_cur:
  "(case onsource_values (map_of [(''0'', 0), (''1'', 1), (''90'', 90)])
      [(''ElevationAngle'', PStr ''0''), (''AzimuthAngle'', PStr ''1'')]
      [(''ElevationAngle'', PStr ''0''), (''ElevationTrackingError'', PStr ''0''),
       (''ElevationPredictedAngle'', PStr ''90''), (''AzimuthAngle'', PStr ''1''),
       (''AzimuthTrackingError'', PStr ''0''), (''AzimuthPredictedAngle'', PStr ''1'')]
    of Inr v \<Rightarrow> xel_pred_cur v = 1 \<and> xel (el_pred_cur v) (az_pred_cur v) = 0
     | Inl e \<Rightarrow> False)"
  by (simp add: onsource_values_def float_item_def getitem_def float_of_def seq_def xel_def deg2rad_def)

subsection \<open>get\_offsets\<close>




subsection \<open>command\<close>




subsection \<open>get in simulated mode\<close>

text \<open>
  Claim C9 (as amended).  On a simulated client \<open>get(*params)\<close> returns the constant
  mapping of AzimuthAngle to 60 and ElevationAngle to 45 for every parameter list; no
  PARAM command is composed and the socket is not touched.  When the server is not yet
  initialised, the call first runs \<open>get_params\<close>, which hands the command GET\_PARAMS
  to the stand-in antenna.
\<close>

theorem get_simulated:
  assumes "simulated c" and "simulator c = Some sim"
  shows "get c names recv_val =
     Inr ([(''AzimuthAngle'', PInt 60), (''ElevationAngle'', PInt 45)],
          if server_initialized c then c
          else c\<lparr>server_initialized := True,
                 simulator := Some (sim\<lparr>fa_command := Some ''GET_PARAMS\<newline>''\<rparr>)\<rparr>)
     \<and> sock (snd (projr (get c names recv_val))) = sock c"
  using assms
  by (simp add: get_def get_params_def seq_def command_def fa_send_def fa_recv_def Let_def newline_def)

theorem get_simulated_witness:
  "simulated client_simulated \<and> simulator client_simulated = Some FakeAntenna
   \<and> get client_simulated [''temperature''] 1024 =
       Inr ([(''AzimuthAngle'', PInt 60), (''ElevationAngle'', PInt 45)],
            client_simulated\<lparr>server_initialized := True,
               simulator := Some (FakeAntenna\<lparr>fa_command := Some ''GET_PARAMS\<newline>''\<rparr>)\<rparr>)
   \<and> get (client_simulated\<lparr>server_initialized := True\<rparr>) [] 1024 =
       Inr ([(''AzimuthAngle'', PInt 60), (''ElevationAngle'', PInt 45)],
            client_simulated\<lparr>server_initialized := True\<rparr>)"
  using get_simulated [of client_simulated FakeAntenna "[''temperature'']" 1024]
        get_simulated [of "client_simulated\<lparr>server_initialized := True\<rparr>" FakeAntenna "[]" 1024]
  by (simp add: client_simulated_def)

text \<open>
  Counterexample to C9 as stated: the first \<open>get\<close> of a freshly built simulated
  client sends GET\_PARAMS to the stand-in antenna.
\<close>

theorem get_simulated_sends_get_params:
  "fa_command (the (simulator client_simulated)) = None
   \<and> (case get client_simulated [''AzimuthAngle''] 1024 of
        Inr (d, c') \<Rightarrow> fa_command (the (simulator c')) = Some ''GET_PARAMS\<newline>''
      | Inl e \<Rightarrow> False)"
  by (simp add: get_def get_params_def seq_def command_def fa_send_def fa_recv_def Let_def
        newline_def client_simulated_def FakeAntenna_def)

section \<open>Properties of the simulated antenna\<close>

subsection \<open>Framing\<close>

lemma recv_cons:
  assumes "incoming s = c # cs" and "c \<noteq> []" and "\<forall>x\<in>set cs. x \<noteq> []"
  shows "fst (recv s 8) = take 8 c"
    and "fst (recv s 8) \<noteq> []"
    and "concat (incoming (snd (recv s 8))) = drop 8 c @ concat cs"
    and "\<forall>x\<in>set (incoming (snd (recv s 8))). x \<noteq> []"
    and "sent (snd (recv s 8)) = sent s"
  using assms by (auto simp add: recv_def sent_def)

lemma recv_until_break_done:
  "newline \<in> set data \<Longrightarrow> recv_until_break s data accum = Some (accum, s)"
  by (subst recv_until_break.simps) simp

lemma recv_until_break_step:
  "newline \<notin> set data \<Longrightarrow>
   recv_until_break s data accum
     = recv_until_break (snd (recv s 8)) (fst (recv s 8)) (accum @ fst (recv s 8))"
  by (subst recv_until_break.simps) (simp add: case_prod_beta)

lemma nonempty_concat_nil:
  "\<forall>x\<in>set xs. x \<noteq> [] \<Longrightarrow> concat xs = [] \<Longrightarrow> xs = []"
  by (cases xs) auto

lemma recv_until_break_line:
  assumes "concat (incoming s) = r @ [newline]" and "newline \<notin> set r"
    and "\<forall>x\<in>set (incoming s). x \<noteq> []" and "newline \<notin> set data"
  shows "\<exists>s'. recv_until_break s data accum = Some (accum @ r @ [newline], s')
              \<and> incoming s' = [] \<and> sent s' = sent s"
  using assms
proof (induction "length r" arbitrary: r s data accum rule: less_induct)
  case less
  from less.prems(1) obtain c cs where inc: "incoming s = c # cs"
    by (cases "incoming s") auto
  from less.prems(3) inc have cne: "c \<noteq> []" and csne: "\<forall>x\<in>set cs. x \<noteq> []" by auto
  let ?d = "fst (recv s 8)" and ?s1 = "snd (recv s 8)"
  note rc = recv_cons [OF inc cne csne]
  have whole: "r @ [newline] = ?d @ concat (incoming ?s1)"
    using less.prems(1) inc rc(1) rc(3) by (simp flip: append_assoc)
  have step: "recv_until_break s data accum = recv_until_break ?s1 ?d (accum @ ?d)"
    using less.prems(4) by (rule recv_until_break_step)
  show ?case
  proof (cases "concat (incoming ?s1) = []")
    case True
    then have d: "?d = r @ [newline]" using whole by simp
    have "incoming ?s1 = []" using rc(4) True by (rule nonempty_concat_nil)
    moreover have "recv_until_break ?s1 ?d (accum @ ?d) = Some (accum @ ?d, ?s1)"
      by (rule recv_until_break_done) (simp add: d)
    ultimately show ?thesis using step d rc(5) by simp
  next
    case False
    then obtain r1 where r1: "concat (incoming ?s1) = r1 @ [newline]" and r: "r = ?d @ r1"
      using whole
      by (metis append_butlast_last_id butlast_append butlast_snoc last_appendR last_snoc)
    have lt: "length r1 < length r" using r rc(2) by (metis length_append length_greater_0_conv less_add_same_cancel2 add.commute)
    have nd: "newline \<notin> set ?d" and nr1: "newline \<notin> set r1" using less.prems(2) r by (metis Un_iff set_append)+
    from less.hyps [OF lt r1 nr1 rc(4) nd, of "accum @ ?d"]
    obtain s' where "recv_until_break ?s1 ?d (accum @ ?d) = Some ((accum @ ?d) @ r1 @ [newline], s')"
      "incoming s' = []" "sent s' = sent ?s1" by blast
    then show ?thesis using step r rc(5) by simp
  qed
qed

lemma sent_sendall: "sent (sendall s t) = sent s @ [t]" "incoming (sendall s t) = incoming s"
  by (simp_all add: sent_def sendall_def)

lemma handle_pass_after_line:
  assumes "recv_until_break s1 d d = Some (line, s2)" and "d \<noteq> []" and "recv s 8 = (d, s1)"
  shows "\<exists>s3. handle_pass e a s = Some (Some line, snd (process_request e a (Bytes line)), s3)
          \<and> incoming s3 = incoming s2
          \<and> sent s3 = sent s2 @ reply_of (process_request e a (Bytes line))"
proof (cases "process_request e a (Bytes line)")
  case (Pair r a1)
  show ?thesis
  proof (cases r)
    case (Inl err)
    with Pair assms show ?thesis by (simp add: handle_pass_def reply_of_def)
  next
    case (Inr x)
    with Pair assms show ?thesis
      by (cases x) (simp_all add: handle_pass_def reply_of_def sent_sendall)
  qed
qed

lemma handle_pass_line:
  assumes "concat (incoming s) = r @ [newline]" and "newline \<notin> set r"
    and "\<forall>x\<in>set (incoming s). x \<noteq> []"
  shows "\<exists>s3. handle_pass e a s
             = Some (Some (r @ [newline]), snd (process_request e a (Bytes (r @ [newline]))), s3)
          \<and> incoming s3 = []
          \<and> sent s3 = sent s @ reply_of (process_request e a (Bytes (r @ [newline])))"
proof -
  from assms(1) obtain c cs where inc: "incoming s = c # cs"
    by (cases "incoming s") auto
  from assms(3) inc have cne: "c \<noteq> []" and csne: "\<forall>x\<in>set cs. x \<noteq> []" by auto
  let ?d = "fst (recv s 8)" and ?s1 = "snd (recv s 8)"
  note rc = recv_cons [OF inc cne csne]
  have whole: "r @ [newline] = ?d @ concat (incoming ?s1)"
    using assms(1) inc rc(1) rc(3) by (simp flip: append_assoc)
  have "\<exists>s2. recv_until_break ?s1 ?d ?d = Some (r @ [newline], s2)
            \<and> incoming s2 = [] \<and> sent s2 = sent s"
  proof (cases "concat (incoming ?s1) = []")
    case True
    then have d: "?d = r @ [newline]" using whole by simp
    have "incoming ?s1 = []" using rc(4) True by (rule nonempty_concat_nil)
    moreover have "recv_until_break ?s1 ?d ?d = Some (?d, ?s1)"
      by (rule recv_until_break_done) (simp add: d)
    ultimately show ?thesis using d rc(5) by simp
  next
    case False
    then obtain r1 where r1: "concat (incoming ?s1) = r1 @ [newline]" and r: "r = ?d @ r1"
      using whole
      by (metis append_butlast_last_id butlast_append butlast_snoc last_appendR last_snoc)
    have nd: "newline \<notin> set ?d" and nr1: "newline \<notin> set r1"
      using assms(2) r by (metis Un_iff set_append)+
    from recv_until_break_line [OF r1 nr1 rc(4) nd, of ?d]
    show ?thesis using r rc(5) by auto
  qed
  then obtain s2 where s2: "recv_until_break ?s1 ?d ?d = Some (r @ [newline], s2)"
    "incoming s2 = []" "sent s2 = sent s" by blast
  have "recv s 8 = (?d, ?s1)" by simp
  from handle_pass_after_line [OF s2(1) rc(2) this, of e a] s2(2,3)
  show ?thesis by auto
qed

text \<open>
  The threaded handler does what claim C8 says.  For a request line that ends in the
  break character and contains it nowhere else, a pass of \<open>handle\<close> over the line
  delivered whole (\<open>recv(8)\<close> then cuts it into pieces of 8 bytes) and a pass over the
  line delivered one byte at a time both terminate, accumulate the same buffer, the whole
  line, call \<open>process_request\<close> on it, leave the antenna in the same state and send
  the same reply.
\<close>

theorem framing_chunk_independent:
  assumes "newline \<notin> set body"
  shows "\<exists>s1 s2.
     handle_pass e a \<lparr>incoming = [body @ [newline]], events = []\<rparr>
       = Some (Some (body @ [newline]), snd (process_request e a (Bytes (body @ [newline]))), s1)
   \<and> handle_pass e a \<lparr>incoming = map (\<lambda>c. [c]) (body @ [newline]), events = []\<rparr>
       = Some (Some (body @ [newline]), snd (process_request e a (Bytes (body @ [newline]))), s2)
   \<and> incoming s1 = [] \<and> incoming s2 = []
   \<and> sent s1 = reply_of (process_request e a (Bytes (body @ [newline])))
   \<and> sent s2 = reply_of (process_request e a (Bytes (body @ [newline])))"
proof -
  have c: "concat (map (\<lambda>c. [c]) xs) = xs" for xs :: string
    by (induction xs) simp_all
  have "\<exists>s1. handle_pass e a \<lparr>incoming = [body @ [newline]], events = []\<rparr>
       = Some (Some (body @ [newline]), snd (process_request e a (Bytes (body @ [newline]))), s1)
     \<and> incoming s1 = [] \<and> sent s1 = sent \<lparr>incoming = [body @ [newline]], events = []\<rparr>
          @ reply_of (process_request e a (Bytes (body @ [newline])))"
    by (rule handle_pass_line) (use assms in simp_all)
  moreover
  have "\<exists>s2. handle_pass e a \<lparr>incoming = map (\<lambda>c. [c]) (body @ [newline]), events = []\<rparr>
       = Some (Some (body @ [newline]), snd (process_request e a (Bytes (body @ [newline]))), s2)
     \<and> incoming s2 = []
     \<and> sent s2 = sent \<lparr>incoming = map (\<lambda>c. [c]) (body @ [newline]), events = []\<rparr>
          @ reply_of (process_request e a (Bytes (body @ [newline])))"
    by (rule handle_pass_line) (use assms in \<open>auto simp add: c simp del: map_append\<close>)
  ultimately show ?thesis by (auto simp add: sent_def)
qed

lemmas sim_eval = process_request_def split_request_def text_upper_def upper_def upper_char_def
  strip_with_def bytes_space_def commands_def antenna_cmd_def antenna_subcommands_def newline_def
  Let_def

lemma pr_foo: "process_request e a (Bytes ''FOO\<newline>'') = (Inr (RStr ''ERROR''), a)"
  by (simp add: sim_eval)

theorem framing_chunk_independent_example:
  "newline \<notin> set ''FOO''
   \<and> (\<exists>s1 s2.
        handle_pass \<lparr>env_float = Map.empty, env_str = (\<lambda>n. ''0''), env_time = 0,
                     env_doy_time = [], env_mktime = 0\<rparr> (antenna_init 0)
          \<lparr>incoming = [''FOO\<newline>''], events = []\<rparr>
          = Some (Some ''FOO\<newline>'', antenna_init 0, s1)
      \<and> handle_pass \<lparr>env_float = Map.empty, env_str = (\<lambda>n. ''0''), env_time = 0,
                     env_doy_time = [], env_mktime = 0\<rparr> (antenna_init 0)
          \<lparr>incoming = [''F'', ''O'', ''O'', ''\<newline>''], events = []\<rparr>
          = Some (Some ''FOO\<newline>'', antenna_init 0, s2)
      \<and> incoming s1 = [] \<and> incoming s2 = []
      \<and> sent s1 = [''ERROR''] \<and> sent s2 = [''ERROR''])"
proof -
  have n: "newline \<notin> set ''FOO''" by (simp add: newline_def)
  from framing_chunk_independent [OF n, of _ "antenna_init 0"]
  show ?thesis by (simp add: n pr_foo reply_of_def newline_def)
qed

subsection \<open>Framing in the asynchronous handler\<close>

lemma decode_utf8_two_bytes: "decode_utf8 (''PARAM '' @ [CHR 0xC3, CHR 0xA9]) = Some [80, 65, 82, 65, 77, 32, 233]"
  by (simp add: decode_utf8_def continuation_def)

lemma decode_utf8_four_bytes: "decode_utf8 [CHR 0xF0, CHR 0x9F, CHR 0x98, CHR 0x80] = Some [128512]"
  by (simp add: decode_utf8_def continuation_def second_of_four_def)

lemma decode_utf8_cut_short: "decode_utf8 [CHR 0xC3] = None"
  by (simp add: decode_utf8_def)

lemma async_read_until_break_done:
  "10 \<in> set data \<Longrightarrow> async_read_until_break s data accum = Some (Inr (accum, s))"
  by (subst async_read_until_break.simps) simp

lemma async_read_until_break_step:
  "10 \<notin> set data \<Longrightarrow>
   async_read_until_break s data accum =
     (case decode_utf8 (fst (recv s 8)) of
        None \<Rightarrow> Some (Inl UnicodeDecodeError)
      | Some u \<Rightarrow> async_read_until_break (snd (recv s 8)) u (accum @ u))"
  by (subst async_read_until_break.simps) (simp add: case_prod_beta)

text \<open>
  Claim C8.  The claim has a request line dispatched alike whether it is delivered one
  byte at a time or whole.  The asynchronous handler decodes each read on its own: the
  line \<open>PARAM\<close>, space, the two bytes C3 A9 of a UTF-8 letter, line feed is decoded
  and handed to \<open>dispatch_command\<close> when it is delivered whole, and ends the handler
  with UnicodeDecodeError, before any dispatch, when it is delivered one byte at a time.
\<close>

theorem async_framing_depends_on_chunks:
  "(case async_handle_pass dispatch st
           \<lparr>incoming = [''PARAM '' @ [CHR 0xC3, CHR 0xA9, newline]], events = []\<rparr> of
      Some (Inr (line, st1, s1)) \<Rightarrow>
        line = Some [80, 65, 82, 65, 77, 32, 233, 10]
        \<and> st1 = snd (dispatch [80, 65, 82, 65, 77, 32, 233, 10] st)
        \<and> sent s1 = (case fst (dispatch [80, 65, 82, 65, 77, 32, 233, 10] st) of
                       Some b \<Rightarrow> [b] | None \<Rightarrow> [])
    | _ \<Rightarrow> False)
   \<and> async_handle_pass dispatch st
        \<lparr>incoming = map (\<lambda>c. [c]) (''PARAM '' @ [CHR 0xC3, CHR 0xA9, newline]), events = []\<rparr>
      = Some (Inl UnicodeDecodeError)"
proof -
  obtain reply st1 where d: "dispatch [80, 65, 82, 65, 77, 32, 233, 10] st = (reply, st1)"
    by (cases "dispatch [80, 65, 82, 65, 77, 32, 233, 10] st")
  show ?thesis
    by (cases reply)
       (simp_all add: async_handle_pass_def recv_def decode_utf8_def continuation_def newline_def
          async_read_until_break_done async_read_until_break_step d sent_def sendall_def)
qed

subsection \<open>Dispatch\<close>

text \<open>
  The first half of claim C3 holds: a request whose first token, in upper case, is no key
  of \<open>commands\<close> is answered with "ERROR", and so is every \<open>str\<close> request; the
  antenna is unchanged.  An ANTENNA request without a second token is answered with
  "REJECTED".
\<close>

lemma find_command_None: "find_command table t = None \<longleftrightarrow> t \<notin> Bytes ` fst ` set table"
  by (induction table) (auto split: if_splits)

lemma process_request_unknown_command:
  assumes "split_request request_str = t # ts"
    and "text_upper t \<notin> Bytes ` fst ` set commands"
  shows "process_request e a request_str = (Inr (RStr ''ERROR''), a)"
  using assms by (simp add: process_request_def find_command_None [symmetric])

lemma process_request_str: "process_request e a (Str s) = (Inr (RStr ''ERROR''), a)"
  by (simp add: sim_eval)

lemma antenna_cmd_no_subcommand:
  "process_request e a (Bytes ''ANTENNA\<newline>'') = (Inr (RStr ''REJECTED''), a)"
  by (simp add: sim_eval)

text \<open>
  Claim C3.  The claim has every ANTENNA request with an unregistered sub-command
  answered with "REJECTED".  For the request \<open>ANTENNA FOO\<close> the loop of
  \<open>antenna_cmd\<close> finds no match and the function returns None: \<open>handle\<close> sends
  nothing.
\<close>

theorem antenna_cmd_unknown_subcommand:
  "process_request e a (Bytes ''ANTENNA FOO\<newline>'') = (Inr RNone, a)
   \<and> reply_of (process_request e a (Bytes ''ANTENNA FOO\<newline>'')) = []
   \<and> reply_of (process_request e a (Bytes ''ANTENNA FOO\<newline>'')) \<noteq> [''REJECTED'']"
  by (simp add: sim_eval reply_of_def)

subsection \<open>Position offsets\<close>

lemma offset_key_of_upper:
  "axis \<in> {''EL'', ''XEL''} \<Longrightarrow>
     text_upper (Str axis) = Str axis
     \<and> offset_key_of (Str axis) = Some (if axis = ''EL'' then OEL else OXEL)"
  by (auto simp add: text_upper_def upper_def upper_char_def offset_key_of_def)

text \<open>
  Claim C10.  For an axis "EL" or "XEL" and a value that \<open>float\<close> accepts as \<open>v\<close>,
  \<open>set_offset\<close> (of both simulators) returns normally and leaves both the position
  offset and the accumulated rate offset of that axis equal to \<open>v\<close>; the rate of the
  axis and the other axis are unchanged.
\<close>

theorem set_offset_overwrites_both:
  assumes "axis \<in> {''EL'', ''XEL''}" and "float_arg e x = Inr v"
  shows "(case set_offset e a (Str axis) x of
            (r, a') \<Rightarrow> r = Inr ()
               \<and> get_offset a' (Str axis) = Inr v
               \<and> get_accum_offset a' (Str axis) = Inr v
               \<and> get_offset_rate a' (Str axis) = get_offset_rate a (Str axis)
               \<and> (\<forall>k. offset_key_of (Str axis) \<noteq> Some k \<longrightarrow> offsets a' k = offsets a k))
       \<and> (case async_set_offset e a (Str axis) x of
            (r, a') \<Rightarrow> r = Inr ()
               \<and> get_offset a' (Str axis) = Inr v
               \<and> get_accum_offset a' (Str axis) = Inr v
               \<and> get_offset_rate a' (Str axis) = get_offset_rate a (Str axis)
               \<and> (\<forall>k. offset_key_of (Str axis) \<noteq> Some k \<longrightarrow> offsets a' k = offsets a k))"
  using assms offset_key_of_upper [OF assms(1)]
  by (auto simp add: set_offset_def async_set_offset_def get_offset_def get_accum_offset_def
        get_offset_rate_def Let_def)

theorem set_offset_overwrites_both_witness:
  "''EL'' \<in> {''EL'', ''XEL''}
   \<and> float_arg \<lparr>env_float = Map.empty, env_str = (\<lambda>n. ''0''), env_time = 0,
                  env_doy_time = [], env_mktime = 0\<rparr> (AFloat 5) = Inr 5
   \<and> get_accum_offset ((antenna_init 0)\<lparr>offsets := (offsets (antenna_init 0))
          (OEL := \<lparr>accumulated = 3, offset = 0, rate = 1\<rparr>)\<rparr>) (Str ''EL'') = Inr 3
   \<and> (case set_offset \<lparr>env_float = Map.empty, env_str = (\<lambda>n. ''0''), env_time = 0,
                        env_doy_time = [], env_mktime = 0\<rparr>
              ((antenna_init 0)\<lparr>offsets := (offsets (antenna_init 0))
                 (OEL := \<lparr>accumulated = 3, offset = 0, rate = 1\<rparr>)\<rparr>) (Str ''EL'') (AFloat 5) of
         (r, a') \<Rightarrow> r = Inr () \<and> get_offset a' (Str ''EL'') = Inr 5
                  \<and> get_accum_offset a' (Str ''EL'') = Inr 5
                  \<and> get_offset_rate a' (Str ''EL'') = Inr 1
                  \<and> offsets a' OXEL = \<lparr>accumulated = 0, offset = 0, rate = 1\<rparr>)"
proof -
  define e0 where "e0 = \<lparr>env_float = Map.empty, env_str = (\<lambda>n::pynum. ''0''), env_time = 0,
                  env_doy_time = [], env_mktime = 0\<rparr>"
  define a0 where "a0 = (antenna_init 0)\<lparr>offsets := (offsets (antenna_init 0))
          (OEL := \<lparr>accumulated = 3, offset = 0, rate = 1\<rparr>)\<rparr>"
  have h1: "''EL'' \<in> {''EL'', ''XEL''}" by simp
  have h2: "float_arg e0 (AFloat 5) = Inr 5" by (simp add: float_arg_def)
  have k: "offset_key_of (Str ''EL'') = Some OEL" "offset_key_of (Str ''EL'') \<noteq> Some OXEL"
    by (simp_all add: offset_key_of_def)
  have r: "get_offset_rate a0 (Str ''EL'') = Inr 1" "get_accum_offset a0 (Str ''EL'') = Inr 3"
          "offsets a0 OXEL = \<lparr>accumulated = 0, offset = 0, rate = 1\<rparr>"
    by (simp_all add: a0_def antenna_init_def get_offset_rate_def get_accum_offset_def k)
  from set_offset_overwrites_both [OF h1 h2, of a0] k(2) r
  show ?thesis
    unfolding e0_def [symmetric] a0_def [symmetric]
    by (auto simp add: h2 split: prod.splits)
qed

text \<open>
  The direct half of claim C4 holds: \<open>set_offset(axis, v)\<close> followed by
  \<open>get_offset(axis)\<close> gives \<open>v\<close>.
\<close>

lemma set_offset_then_get_offset:
  assumes "axis \<in> {''EL'', ''XEL''}" and "float_arg e x = Inr v"
  shows "get_offset (snd (set_offset e a (Str axis) x)) (Str axis) = Inr v"
  using assms offset_key_of_upper [OF assms(1)]
  by (auto simp add: set_offset_def get_offset_def Let_def)

text \<open>
  Claim C4.  The claim has the wire command \<open>ANTENNA PO EL 5.0\<close> answered with
  "COMPLETED" and a following \<open>PARAM ElevationPositionOffset\<close> answered with the value
  set.  The tokens of a wire request are \<open>bytes\<close>, so \<open>set_offset\<close> looks up
  \<open>self.offsets[b"EL"]\<close> for its debug message and raises KeyError: \<open>handle\<close>
  sends nothing, the antenna is unchanged, and PARAM still reports the old offset.
\<close>

theorem wire_po_raises_key_error:
  "process_request (e\<lparr>env_float := [''5.0'' \<mapsto> 5]\<rparr>) a (Bytes ''ANTENNA PO EL 5.0\<newline>'')
     = (Inl KeyError, a)
   \<and> reply_of (process_request (e\<lparr>env_float := [''5.0'' \<mapsto> 5]\<rparr>) a
        (Bytes ''ANTENNA PO EL 5.0\<newline>'')) = []
   \<and> process_request (e\<lparr>env_float := [''5.0'' \<mapsto> 5]\<rparr>) a
        (Bytes ''PARAM ElevationPositionOffset\<newline>'')
     = (Inr (RStr (env_str e (NFloat (offset (offsets a OEL))))), a)"
  by (simp add: sim_eval reply_of_def antenna_po_def set_offset_def float_arg_def get_offset_def
        offset_key_of_def sim_get_def params_def)

text \<open>
  In the asynchronous simulator the same request is answered with "COMPLETED" and
  changes nothing.
\<close>

lemma async_antenna_po_no_effect:
  "async_antenna_po e a [Str ''ANTENNA'', Str ''PO'', Str ''EL'', Str ''5.0'']
     = (Inr (RStr ''COMPLETED''), a)"
  by (simp add: async_antenna_po_def)

end
